theory Spec2Isabelle
  imports Main
begin

section \<open>Python values\<close>

text \<open>
  The entities of \<^verbatim>\<open>app_producao.py\<close> are Python dicts read with \<^verbatim>\<open>.get\<close>; the
  values they hold are modelled by \<open>pyval\<close>. A dict is an association list with unique
  keys, in insertion order. Texts of the source that carry accents or pictograms are
  written here without them (\<^verbatim>\<open>'Usuario ou senha incorretos!'\<close>); calls of
  \<^verbatim>\<open>logger\<close> have no effect on a response or on the store and are left out.
\<close>

datatype pyfloat = Dec int nat
  \<comment> \<open>\<open>Dec m d\<close> is the decimal number \<open>m / 10 ^ d\<close>; rounding to binary64 is not modelled\<close>

datatype pyval =
    PNone
  | PBool bool
  | PInt int
  | PFloat pyfloat
  | PStr string
  | PDict "(string \<times> pyval) list"
  | PList "pyval list"

type_synonym row = "(string \<times> pyval) list"

datatype exn = Exn string string
  \<comment> \<open>the exception's class and \<^verbatim>\<open>str(e)\<close>\<close>

fun exn_str :: "exn \<Rightarrow> string" where
  "exn_str (Exn c m) = m"

fun exn_class :: "exn \<Rightarrow> string" where
  "exn_class (Exn c m) = c"

fun truthy :: "pyval \<Rightarrow> bool" where
  "truthy PNone = False"
| "truthy (PBool b) = b"
| "truthy (PInt i) = (i \<noteq> 0)"
| "truthy (PFloat (Dec m d)) = (m \<noteq> 0)"
| "truthy (PStr s) = (s \<noteq> [])"
| "truthy (PDict d) = (d \<noteq> [])"
| "truthy (PList xs) = (xs \<noteq> [])"

definition dict_get :: "row \<Rightarrow> string \<Rightarrow> pyval \<Rightarrow> pyval" where
  \<comment> \<open>\<^verbatim>\<open>d.get(k, default)\<close>\<close>
  "dict_get d k dflt = (case map_of d k of None \<Rightarrow> dflt | Some v \<Rightarrow> v)"

fun dict_set :: "row \<Rightarrow> string \<Rightarrow> pyval \<Rightarrow> row" where
  \<comment> \<open>\<^verbatim>\<open>d[k] = v\<close>: an existing key keeps its place\<close>
  "dict_set [] k v = [(k, v)]"
| "dict_set ((k', v') # d) k v = (if k' = k then (k, v) # d else (k', v') # dict_set d k v)"

fun dict_update :: "row \<Rightarrow> row \<Rightarrow> row" where
  \<comment> \<open>\<^verbatim>\<open>d.update(patch)\<close>\<close>
  "dict_update d [] = d"
| "dict_update d ((k, v) # patch) = dict_update (dict_set d k v) patch"

subsection \<open>Decimal text\<close>

definition digit_char :: "nat \<Rightarrow> char" where
  "digit_char n = ''0123456789'' ! (n mod 10)"

function show_nat :: "nat \<Rightarrow> string" where
  "show_nat n = (if n < 10 then [digit_char n] else show_nat (n div 10) @ [digit_char n])"
  by pat_completeness auto
termination
  by (relation "measure id") auto

declare show_nat.simps [simp del]

definition str_int :: "int \<Rightarrow> string" where
  \<comment> \<open>\<^verbatim>\<open>str(i)\<close> of an int, as an f-string prints it\<close>
  "str_int i = (if i < 0 then CHR ''-'' # show_nat (nat (- i)) else show_nat (nat i))"

definition is_digit :: "char \<Rightarrow> bool" where
  "is_digit c = (c \<in> set ''0123456789'')"

definition digit_val :: "char \<Rightarrow> nat" where
  \<comment> \<open>the place of a digit among the ten\<close>
  "digit_val c = length (takeWhile (\<lambda>d. d \<noteq> c) ''0123456789'')"

definition digits_val :: "string \<Rightarrow> nat" where
  "digits_val s = foldl (\<lambda>a c. 10 * a + digit_val c) 0 s"

definition all_digits :: "string \<Rightarrow> bool" where
  "all_digits s = (s \<noteq> [] \<and> list_all is_digit s)"

definition is_space :: "char \<Rightarrow> bool" where
  "is_space c = (c \<in> set [CHR '' '', CHR 0x09, CHR 0x0A, CHR 0x0B, CHR 0x0C, CHR 0x0D])"

definition strip :: "string \<Rightarrow> string" where
  "strip s = rev (dropWhile is_space (rev (dropWhile is_space s)))"

definition split_sign :: "string \<Rightarrow> int \<times> string" where
  "split_sign s =
     (case s of
        [] \<Rightarrow> (1, [])
      | c # r \<Rightarrow> if c = CHR ''-'' then (- 1, r) else if c = CHR ''+'' then (1, r) else (1, s))"

definition py_int :: "string \<Rightarrow> exn + int" where
  \<comment> \<open>\<^verbatim>\<open>int(s)\<close> of a str on the literals \<^verbatim>\<open>[ws][+-]digits[ws]\<close>; Python also takes
      \<^verbatim>\<open>_\<close> between digits and non-ASCII digits, which are outside this fragment\<close>
  "py_int s =
     (case split_sign (strip s) of
        (sg, ds) \<Rightarrow>
          if all_digits ds then Inr (sg * int (digits_val ds))
          else Inl (Exn ''ValueError'' (''invalid literal for int() with base 10: '' @ s)))"

definition py_float :: "string \<Rightarrow> exn + pyfloat" where
  \<comment> \<open>\<^verbatim>\<open>float(s)\<close> of a str on the literals \<^verbatim>\<open>[ws][+-]digits[.digits][ws]\<close>, with one of
      the two digit groups possibly empty; exponents, \<^verbatim>\<open>inf\<close> and \<^verbatim>\<open>nan\<close> are outside
      this fragment\<close>
  "py_float s =
     (case split_sign (strip s) of
        (sg, ds) \<Rightarrow>
          (let ip = takeWhile (\<lambda>c. c \<noteq> CHR ''.'') ds;
               fp = drop (Suc (length ip)) ds
           in if (ip \<noteq> [] \<or> fp \<noteq> []) \<and> list_all is_digit ip \<and> list_all is_digit fp
              then Inr (Dec (sg * int (digits_val (ip @ fp))) (length fp))
              else Inl (Exn ''ValueError'' (''could not convert string to float: '' @ s))))"



fun py_gt0 :: "pyval \<Rightarrow> exn + bool" where
  \<comment> \<open>\<^verbatim>\<open>x > 0\<close>\<close>
  "py_gt0 (PInt i) = Inr (0 < i)"
| "py_gt0 (PBool b) = Inr b"
| "py_gt0 (PFloat (Dec m d)) = Inr (0 < m)"
| "py_gt0 v = Inl (Exn ''TypeError'' ''> not supported between these operands'')"

fun py_le0 :: "pyval \<Rightarrow> exn + bool" where
  \<comment> \<open>\<^verbatim>\<open>x <= 0\<close>\<close>
  "py_le0 (PInt i) = Inr (i \<le> 0)"
| "py_le0 (PBool b) = Inr (\<not> b)"
| "py_le0 (PFloat (Dec m d)) = Inr (m \<le> 0)"
| "py_le0 v = Inl (Exn ''TypeError'' ''<= not supported between these operands'')"

fun py_int_of :: "pyval \<Rightarrow> exn + int" where
  \<comment> \<open>\<^verbatim>\<open>int(x)\<close>; a float is truncated towards zero\<close>
  "py_int_of (PInt i) = Inr i"
| "py_int_of (PBool b) = Inr (if b then 1 else 0)"
| "py_int_of (PFloat (Dec m d)) = Inr (sgn m * (\<bar>m\<bar> div 10 ^ d))"
| "py_int_of (PStr s) = py_int s"
| "py_int_of v = Inl (Exn ''TypeError'' ''int() argument must be a string or a number'')"

fun py_float_of :: "pyval \<Rightarrow> exn + pyfloat" where
  \<comment> \<open>\<^verbatim>\<open>float(x)\<close>\<close>
  "py_float_of (PInt i) = Inr (Dec i 0)"
| "py_float_of (PBool b) = Inr (Dec (if b then 1 else 0) 0)"
| "py_float_of (PFloat f) = Inr f"
| "py_float_of (PStr s) = py_float s"
| "py_float_of v = Inl (Exn ''TypeError'' ''float() argument must be a string or a number'')"

fun py_str :: "pyval \<Rightarrow> string" where
  \<comment> \<open>\<^verbatim>\<open>str(x)\<close> as an f-string prints it; only the scalars are spelled out\<close>
  "py_str PNone = ''None''"
| "py_str (PBool b) = (if b then ''True'' else ''False'')"
| "py_str (PInt i) = str_int i"
| "py_str (PStr s) = s"
| "py_str (PFloat f) = ''<float>''"
| "py_str (PDict d) = ''<dict>''"
| "py_str (PList xs) = ''<list>''"

fun pyval_get :: "pyval \<Rightarrow> string \<Rightarrow> pyval \<Rightarrow> exn + pyval" where
  \<comment> \<open>\<^verbatim>\<open>x.get(k, default)\<close> on whatever the store returned\<close>
  "pyval_get (PDict d) k dflt = Inr (dict_get d k dflt)"
| "pyval_get v k dflt = Inl (Exn ''AttributeError'' ''object has no attribute get'')"

fun pyval_item :: "pyval \<Rightarrow> string \<Rightarrow> exn + pyval" where
  \<comment> \<open>\<^verbatim>\<open>x[k]\<close>\<close>
  "pyval_item (PDict d) k =
     (case map_of d k of None \<Rightarrow> Inl (Exn ''KeyError'' k) | Some v \<Rightarrow> Inr v)"
| "pyval_item v k = Inl (Exn ''TypeError'' ''object is not subscriptable'')"

section \<open>The application state\<close>

text \<open>
  \<^verbatim>\<open>MockUser\<close> is the class of the source. The entity classes of
  \<^verbatim>\<open>models_supabase\<close> are named by \<open>model\<close>; when the import of that module fails the
  source replaces every one of them by \<^verbatim>\<open>MockModel\<close>.
\<close>

record MockUser =
  user_id :: string
  username :: string
  nome :: string
  is_authenticated :: bool
  is_active :: bool
  is_anonymous :: bool

definition MockUser_init :: "string \<Rightarrow> string \<Rightarrow> string \<Rightarrow> MockUser" where
  "MockUser_init i u n =
     \<lparr>user_id = i, username = u, nome = n,
      is_authenticated = True, is_active = True, is_anonymous = False\<rparr>"

datatype model = Usuario | Cliente | Categoria | Produto | Estoque | Venda | ItemVenda

datatype call =
    GetAll model
  | Create model row
  | GetById model string
  | Update model string row
  | Delete model string

record world =
  SUPABASE_AVAILABLE :: bool
  current_user :: "MockUser option"
    \<comment> \<open>Flask-Login's \<^verbatim>\<open>current_user\<close>; \<open>None\<close> is the anonymous user\<close>
  flashes :: "(string \<times> string) list"
    \<comment> \<open>the messages given to \<^verbatim>\<open>flash\<close>, with their category, oldest first\<close>
  tables :: "model \<Rightarrow> row list"
  next_id :: nat
  outage :: "string option"
    \<comment> \<open>the remote store cannot be reached, with the error's text\<close>
  store_log :: "call list"
    \<comment> \<open>every call made on an entity class, oldest first\<close>
  uploads :: "(string \<times> string) list"
    \<comment> \<open>the files of \<^verbatim>\<open>UPLOAD_FOLDER\<close>: name and content\<close>
  sync_status :: "exn + pyval"
    \<comment> \<open>what \<^verbatim>\<open>get_sync_status()\<close> of \<^verbatim>\<open>sync_supabase\<close> does when called\<close>

datatype http_method = GET | POST

record upload =
  filename :: string
  secure_name :: string
    \<comment> \<open>\<^verbatim>\<open>werkzeug.utils.secure_filename(filename)\<close>\<close>
  content :: string

record request =
  req_method :: http_method
  form :: "(string \<times> string) list"
  files :: "(string \<times> upload) list"
  uuid4 :: string
    \<comment> \<open>what \<^verbatim>\<open>uuid.uuid4()\<close> yields during this request\<close>
  now :: string
    \<comment> \<open>\<^verbatim>\<open>datetime.now()\<close> during this request, as text\<close>

datatype response =
    Redirect string
  | Render string "(string \<times> pyval) list"
  | Html string "(string \<times> pyval) list"
  | Json pyval nat
  | Text string nat
  | SendFile string string
  | Static string

subsection \<open>Statements that may raise and change the state\<close>

type_synonym 'a m = "world \<Rightarrow> (exn + 'a) \<times> world"

definition ret :: "'a \<Rightarrow> 'a m" where
  "ret x w = (Inr x, w)"

definition raise :: "exn \<Rightarrow> 'a m" where
  "raise e w = (Inl e, w)"

definition lift :: "exn + 'a \<Rightarrow> 'a m" where
  "lift r w = (r, w)"

definition bind_m :: "'a m \<Rightarrow> ('a \<Rightarrow> 'b m) \<Rightarrow> 'b m" where
  "bind_m f g w = (case f w of (Inl e, w') \<Rightarrow> (Inl e, w') | (Inr a, w') \<Rightarrow> g a w')"

definition try_except :: "'a m \<Rightarrow> (exn \<Rightarrow> 'a m) \<Rightarrow> 'a m" where
  \<comment> \<open>\<^verbatim>\<open>try: f  except Exception as e: h\<close>; what \<open>f\<close> changed before raising stays changed\<close>
  "try_except f h w = (case f w of (Inl e, w') \<Rightarrow> h e w' | (Inr a, w') \<Rightarrow> (Inr a, w'))"

definition flash :: "string \<Rightarrow> string \<Rightarrow> unit m" where
  "flash msg cat w = (Inr (), w\<lparr>flashes := flashes w @ [(msg, cat)]\<rparr>)"

definition render_template :: "string \<Rightarrow> (string \<times> pyval) list \<Rightarrow> response m" where
  "render_template name ctx = ret (Render name ctx)"

definition rows_val :: "row list \<Rightarrow> pyval" where
  "rows_val rs = PList (map PDict rs)"

subsection \<open>The request\<close>

definition form_item :: "request \<Rightarrow> string \<Rightarrow> string m" where
  \<comment> \<open>\<^verbatim>\<open>request.form[k]\<close>: a missing key raises werkzeug's \<^verbatim>\<open>BadRequestKeyError\<close>\<close>
  "form_item req k =
     (case map_of (form req) k of
        None \<Rightarrow> raise (Exn ''BadRequestKeyError'' ''400 Bad Request'')
      | Some v \<Rightarrow> ret v)"

definition form_get :: "request \<Rightarrow> string \<Rightarrow> string option" where
  \<comment> \<open>\<^verbatim>\<open>request.form.get(k)\<close>\<close>
  "form_get req k = map_of (form req) k"

fun form_items :: "request \<Rightarrow> string list \<Rightarrow> row m" where
  \<comment> \<open>a dict literal \<^verbatim>\<open>{k: request.form[k], ...}\<close>, evaluated key by key\<close>
  "form_items req [] = ret []"
| "form_items req (k # ks) =
     bind_m (form_item req k) (\<lambda>v.
     bind_m (form_items req ks) (\<lambda>r.
     ret ((k, PStr v) # r)))"

definition form_int :: "request \<Rightarrow> string \<Rightarrow> int m" where
  \<comment> \<open>\<^verbatim>\<open>int(request.form.get(k, 0))\<close>\<close>
  "form_int req k = (case form_get req k of None \<Rightarrow> ret 0 | Some s \<Rightarrow> lift (py_int s))"

definition form_float :: "request \<Rightarrow> string \<Rightarrow> pyfloat m" where
  \<comment> \<open>\<^verbatim>\<open>float(request.form.get(k, 0))\<close>\<close>
  "form_float req k =
     (case form_get req k of None \<Rightarrow> ret (Dec 0 0) | Some s \<Rightarrow> lift (py_float s))"

definition form_get_str :: "request \<Rightarrow> string \<Rightarrow> string" where
  \<comment> \<open>\<^verbatim>\<open>request.form.get(k, '')\<close>\<close>
  "form_get_str req k = (case form_get req k of None \<Rightarrow> [] | Some s \<Rightarrow> s)"


section \<open>The entity classes\<close>

subsection \<open>\<^verbatim>\<open>MockModel\<close>, from the source\<close>

definition log_call :: "call \<Rightarrow> world \<Rightarrow> world" where
  "log_call c w = w\<lparr>store_log := store_log w @ [c]\<rparr>"

definition MockModel_get_all :: "row list" where
  "MockModel_get_all = []"

definition MockModel_create :: "row \<Rightarrow> pyval" where
  "MockModel_create kwargs = PNone"

definition MockModel_get_by_id :: "string \<Rightarrow> pyval" where
  "MockModel_get_by_id i = PNone"

definition MockModel_update :: "string \<Rightarrow> row \<Rightarrow> pyval" where
  "MockModel_update i kwargs = PNone"

definition MockModel_delete :: "string \<Rightarrow> pyval" where
  "MockModel_delete i = PNone"

subsection \<open>The classes of \<^verbatim>\<open>models_supabase\<close>\<close>

definition has_id :: "string \<Rightarrow> row \<Rightarrow> bool" where
  "has_id i r = (map_of r ''id'' = Some (PStr i))"

definition refers :: "string \<Rightarrow> string \<Rightarrow> row \<Rightarrow> bool" where
  "refers k i r = (map_of r k = Some (PStr i))"

definition referenced :: "model \<Rightarrow> string \<Rightarrow> world \<Rightarrow> bool" where
  "referenced md i w =
     (case md of
        Categoria \<Rightarrow> list_ex (refers ''categoria_id'' i) (tables w Produto)
      | Cliente \<Rightarrow> list_ex (refers ''cliente_id'' i) (tables w Venda)
      | Produto \<Rightarrow> list_ex (refers ''produto_id'' i) (tables w ItemVenda)
      | _ \<Rightarrow> False)"

definition unreachable :: "string \<Rightarrow> exn" where
  "unreachable msg = Exn ''ConnectivityError'' msg"

definition store_get_all :: "model \<Rightarrow> row list m" where
  \<comment> \<open>Modelled from the spec: \<^verbatim>\<open>get_all\<close> of the entity classes of \<^verbatim>\<open>models_supabase\<close>,
      a module the source imports: \<^verbatim>\<open>getAll() -> sequence of entity\<close>; a store that
      cannot be reached surfaces a connectivity error to the caller.\<close>
  "store_get_all md w =
     (case outage w of
        Some msg \<Rightarrow> (Inl (unreachable msg), w)
      | None \<Rightarrow> (Inr (tables w md), w))"

definition store_get_by_id :: "model \<Rightarrow> string \<Rightarrow> pyval m" where
  \<comment> \<open>Modelled from the spec: \<^verbatim>\<open>get_by_id\<close> of \<^verbatim>\<open>models_supabase\<close>:
      \<^verbatim>\<open>getById(id) -> entity | NotFound\<close>, where the callers test the result for
      truth, so that not found is \<^verbatim>\<open>None\<close>.\<close>
  "store_get_by_id md i w =
     (case outage w of
        Some msg \<Rightarrow> (Inl (unreachable msg), w)
      | None \<Rightarrow>
          (case find (has_id i) (tables w md) of
             None \<Rightarrow> (Inr PNone, w)
           | Some r \<Rightarrow> (Inr (PDict r), w)))"

definition store_create :: "model \<Rightarrow> row \<Rightarrow> pyval m" where
  \<comment> \<open>Modelled from the spec: \<^verbatim>\<open>create\<close> of \<^verbatim>\<open>models_supabase\<close>: the store assigns the
      id, a repeated call creates a duplicate, and \<^verbatim>\<open>getById\<close> afterwards returns the
      entity with the fields supplied. The checks the spec gives to \<^verbatim>\<open>create\<close> are, in
      the source, the conversions the handlers make before they call it; the class itself
      stores what it is given and returns the stored entity.\<close>
  "store_create md kwargs w =
     (case outage w of
        Some msg \<Rightarrow> (Inl (unreachable msg), w)
      | None \<Rightarrow>
          (let r = (''id'', PStr (show_nat (next_id w))) # kwargs
           in (Inr (PDict r),
               w\<lparr>tables := (tables w)(md := tables w md @ [r]), next_id := Suc (next_id w)\<rparr>)))"

definition store_update :: "model \<Rightarrow> string \<Rightarrow> row \<Rightarrow> pyval m" where
  \<comment> \<open>Modelled from the spec: \<^verbatim>\<open>update\<close> of \<^verbatim>\<open>models_supabase\<close>:
      \<^verbatim>\<open>update(id, partialFields) -> bool | Error\<close> applies a partial patch; fields not
      present in the patch are left untouched.\<close>
  "store_update md i kwargs w =
     (case outage w of
        Some msg \<Rightarrow> (Inl (unreachable msg), w)
      | None \<Rightarrow>
          if list_ex (has_id i) (tables w md)
          then (Inr (PBool True),
                w\<lparr>tables := (tables w)
                   (md := map (\<lambda>r. if has_id i r then dict_update r kwargs else r) (tables w md))\<rparr>)
          else (Inr (PBool False), w))"

definition store_delete :: "model \<Rightarrow> string \<Rightarrow> pyval m" where
  \<comment> \<open>Modelled from the spec: \<^verbatim>\<open>delete\<close> of \<^verbatim>\<open>models_supabase\<close>:
      \<^verbatim>\<open>delete(id) -> bool | Error\<close>; deleting an entity that another one references fails
      with \<^verbatim>\<open>ConflictError\<close> (forbid by default, no cascade).\<close>
  "store_delete md i w =
     (case outage w of
        Some msg \<Rightarrow> (Inl (unreachable msg), w)
      | None \<Rightarrow>
          if \<not> list_ex (has_id i) (tables w md) then (Inr (PBool False), w)
          else if referenced md i w then (Inl (Exn ''ConflictError'' ''entity is referenced''), w)
          else (Inr (PBool True),
                w\<lparr>tables := (tables w)(md := filter (\<lambda>r. \<not> has_id i r) (tables w md))\<rparr>))"

subsection \<open>The names the handlers call\<close>

text \<open>
  \<^verbatim>\<open>Cliente\<close>, \<^verbatim>\<open>Produto\<close> and the others are the classes of \<^verbatim>\<open>models_supabase\<close>
  when the import succeeded, and \<^verbatim>\<open>MockModel\<close> otherwise.
\<close>

definition Model_get_all :: "model \<Rightarrow> row list m" where
  "Model_get_all md w =
     (let w1 = log_call (GetAll md) w
      in if SUPABASE_AVAILABLE w then store_get_all md w1 else (Inr MockModel_get_all, w1))"

definition Model_get_by_id :: "model \<Rightarrow> string \<Rightarrow> pyval m" where
  "Model_get_by_id md i w =
     (let w1 = log_call (GetById md i) w
      in if SUPABASE_AVAILABLE w then store_get_by_id md i w1
         else (Inr (MockModel_get_by_id i), w1))"

definition Model_create :: "model \<Rightarrow> row \<Rightarrow> pyval m" where
  "Model_create md kwargs w =
     (let w1 = log_call (Create md kwargs) w
      in if SUPABASE_AVAILABLE w then store_create md kwargs w1
         else (Inr (MockModel_create kwargs), w1))"

definition Model_update :: "model \<Rightarrow> string \<Rightarrow> row \<Rightarrow> pyval m" where
  "Model_update md i kwargs w =
     (let w1 = log_call (Update md i kwargs) w
      in if SUPABASE_AVAILABLE w then store_update md i kwargs w1
         else (Inr (MockModel_update i kwargs), w1))"

definition Model_delete :: "model \<Rightarrow> string \<Rightarrow> pyval m" where
  "Model_delete md i w =
     (let w1 = log_call (Delete md i) w
      in if SUPABASE_AVAILABLE w then store_delete md i w1
         else (Inr (MockModel_delete i), w1))"

definition get_sync_status :: "pyval m" where
  \<comment> \<open>\<^verbatim>\<open>lambda: None\<close> when the import failed\<close>
  "get_sync_status w = (if SUPABASE_AVAILABLE w then (sync_status w, w) else (Inr PNone, w))"

section \<open>Flask-Login\<close>

text \<open>
  \<^verbatim>\<open>login_manager.login_view = 'login'\<close> and the \<^verbatim>\<open>login_message\<close> are set by the
  source; \<^verbatim>\<open>login_required\<close> calls the view for an authenticated user and otherwise
  flashes the message and redirects to the login view.
\<close>

definition user_is_authenticated :: "world \<Rightarrow> bool" where
  \<comment> \<open>\<^verbatim>\<open>current_user.is_authenticated\<close>\<close>
  "user_is_authenticated w =
     (case current_user w of None \<Rightarrow> False | Some u \<Rightarrow> is_authenticated u)"

definition login_message :: string where
  "login_message = ''Por favor, faca login para acessar esta pagina.''"

definition unauthorized :: "response m" where
  "unauthorized = bind_m (flash login_message ''message'') (\<lambda>_. ret (Redirect ''login''))"

definition login_required :: "response m \<Rightarrow> response m" where
  "login_required view w = (if user_is_authenticated w then view w else unauthorized w)"

definition login_user :: "MockUser \<Rightarrow> bool m" where
  "login_user u w =
     (if is_active u then (Inr True, w\<lparr>current_user := Some u\<rparr>) else (Inr False, w))"

definition logout_user :: "bool m" where
  "logout_user w = (Inr True, w\<lparr>current_user := None\<rparr>)"

section \<open>Helpers of the source\<close>

definition authenticate_user :: "string \<Rightarrow> string \<Rightarrow> MockUser option" where
  "authenticate_user usern password =
     (if usern = ''admin'' \<and> password = ''admin123''
      then Some (MockUser_init ''admin'' ''admin'' ''Administrador'')
      else None)"

definition save_image :: "request \<Rightarrow> upload \<Rightarrow> pyval m" where
  "save_image req file w =
     (if filename file \<noteq> []
      then (let unique_filename = uuid4 req @ ''_'' @ secure_name file
            in (Inr (PStr unique_filename),
                w\<lparr>uploads := uploads w @ [(unique_filename, content file)]\<rparr>))
      else (Inr PNone, w))"

definition uploaded_image :: "request \<Rightarrow> pyval \<Rightarrow> pyval m" where
  \<comment> \<open>the upload step of \<^verbatim>\<open>novo_produto\<close>: \<open>cur\<close> is \<^verbatim>\<open>imagem_filename\<close> before it\<close>
  "uploaded_image req cur =
     (case map_of (files req) ''imagem'' of
        None \<Rightarrow> ret cur
      | Some file \<Rightarrow> if filename file \<noteq> [] then save_image req file else ret cur)"

definition replaced_image :: "request \<Rightarrow> pyval \<Rightarrow> pyval m" where
  \<comment> \<open>the upload step of \<^verbatim>\<open>editar_produto\<close>: the current image stays unless a new one
      was saved\<close>
  "replaced_image req cur =
     (case map_of (files req) ''imagem'' of
        None \<Rightarrow> ret cur
      | Some file \<Rightarrow>
          if filename file \<noteq> []
          then bind_m (save_image req file) (\<lambda>nova_imagem.
               ret (if truthy nova_imagem then nova_imagem else cur))
          else ret cur)"


section \<open>The views\<close>

definition then_m :: "'a m \<Rightarrow> 'b m \<Rightarrow> 'b m" where
  "then_m f g = bind_m f (\<lambda>_. g)"

definition or_else :: "response option \<Rightarrow> response m \<Rightarrow> response m" where
  \<comment> \<open>a block that either returned a response or fell through to the code after it\<close>
  "or_else r rest = (case r of Some resp \<Rightarrow> ret resp | None \<Rightarrow> rest)"

definition reported :: "pyval \<Rightarrow> string \<Rightarrow> string \<Rightarrow> string \<Rightarrow> response option m" where
  \<comment> \<open>\<^verbatim>\<open>if result: flash(ok, 'success'); return redirect(url_for(target))
      else: flash(failed, 'error')\<close>\<close>
  "reported result ok target failed =
     (if truthy result then then_m (flash ok ''success'') (ret (Some (Redirect target)))
      else then_m (flash failed ''error'') (ret None))"

definition flash_error :: "string \<Rightarrow> exn \<Rightarrow> unit m" where
  \<comment> \<open>\<^verbatim>\<open>flash(f'{text}: {e}', 'error')\<close>\<close>
  "flash_error text e = flash (text @ '': '' @ exn_str e) ''error''"

subsection \<open>Dashboard and authentication\<close>

definition count_all :: "model \<Rightarrow> int m" where
  "count_all md =
     try_except (bind_m (Model_get_all md) (\<lambda>rs. ret (int (length rs)))) (\<lambda>e. ret 0)"

definition index :: "response m" where
  "index =
     try_except
       (\<lambda>w. if \<not> user_is_authenticated w then ret (Redirect ''login'') w
            else bind_m (count_all Cliente) (\<lambda>total_clientes.
                 bind_m (count_all Produto) (\<lambda>total_produtos.
                 bind_m (count_all Categoria) (\<lambda>total_categorias.
                 bind_m (count_all Venda) (\<lambda>total_vendas.
                 ret (Html ''dashboard''
                        [(''total_clientes'', PInt total_clientes),
                         (''total_produtos'', PInt total_produtos),
                         (''total_categorias'', PInt total_categorias),
                         (''total_vendas'', PInt total_vendas)]))))) w)
       (\<lambda>e. ret (Html ''erro'' [(''erro'', PStr (exn_str e))]))"

definition login :: "request \<Rightarrow> response m" where
  "login req =
     bind_m
       (if req_method req = POST then
          bind_m (form_item req ''username'') (\<lambda>usern.
          bind_m (form_item req ''password'') (\<lambda>password.
          try_except
            (case authenticate_user usern password of
               Some user \<Rightarrow>
                 then_m (login_user user)
                   (then_m (flash ''Login realizado com sucesso!'' ''success'')
                      (ret (Some (Redirect ''index''))))
             | None \<Rightarrow> then_m (flash ''Usuario ou senha incorretos!'' ''error'') (ret None))
            (\<lambda>e. then_m (flash ''Erro no login!'' ''error'') (ret None))))
        else ret None)
       (\<lambda>r. or_else r
          (try_except (render_template ''login.html'' []) (\<lambda>e. ret (Html ''login'' []))))"

definition logout :: "response m" where
  "logout =
     then_m logout_user
       (then_m (flash ''Logout realizado com sucesso!'' ''info'') (ret (Redirect ''login'')))"

subsection \<open>Listing, creating, editing and deleting\<close>

definition listing :: "model \<Rightarrow> string \<Rightarrow> string \<Rightarrow> string \<Rightarrow> response m" where
  \<comment> \<open>the body shared by \<^verbatim>\<open>clientes\<close>, \<^verbatim>\<open>categorias\<close> and \<^verbatim>\<open>vendas\<close>\<close>
  "listing md template key text =
     try_except
       (bind_m (Model_get_all md) (\<lambda>l. render_template template [(key, rows_val l)]))
       (\<lambda>e. then_m (flash_error text e) (render_template template [(key, PList [])]))"

definition excluir :: "model \<Rightarrow> string \<Rightarrow> string \<Rightarrow> string \<Rightarrow> string \<Rightarrow> string \<Rightarrow> response m" where
  \<comment> \<open>the body shared by \<^verbatim>\<open>excluir_cliente\<close>, \<^verbatim>\<open>excluir_categoria\<close> and
      \<^verbatim>\<open>excluir_produto\<close>\<close>
  "excluir md i ok failed text target =
     then_m
       (try_except
          (bind_m (Model_delete md i) (\<lambda>r.
             if truthy r then flash ok ''success'' else flash failed ''error''))
          (\<lambda>e. flash_error text e))
       (ret (Redirect target))"

definition cliente_fields :: "string list" where
  "cliente_fields =
     [''nome'', ''email'', ''telefone'', ''cpf_cnpj'', ''endereco'', ''cidade'', ''estado'', ''cep'']"

definition categoria_fields :: "string list" where
  "categoria_fields = [''nome'', ''descricao'', ''cor'', ''icone'']"

definition clientes :: "response m" where
  "clientes = listing Cliente ''clientes.html'' ''clientes'' ''Erro ao carregar clientes''"

definition novo_cliente :: "request \<Rightarrow> response m" where
  "novo_cliente req =
     bind_m
       (if req_method req = POST then
          try_except
            (bind_m (form_items req cliente_fields) (\<lambda>cliente_data.
             bind_m (Model_create Cliente cliente_data) (\<lambda>r.
             reported r ''Cliente criado com sucesso!'' ''clientes'' ''Erro ao criar cliente!'')))
            (\<lambda>e. then_m (flash_error ''Erro ao criar cliente'' e) (ret None))
        else ret None)
       (\<lambda>r. or_else r (render_template ''cliente_form.html'' []))"

definition editar_cliente :: "string \<Rightarrow> request \<Rightarrow> response m" where
  "editar_cliente i req =
     try_except
       (bind_m (Model_get_by_id Cliente i) (\<lambda>cliente.
          if \<not> truthy cliente
          then then_m (flash ''Cliente nao encontrado!'' ''error'') (ret (Redirect ''clientes''))
          else
            bind_m
              (if req_method req = POST then
                 bind_m (form_items req cliente_fields) (\<lambda>cliente_data.
                 bind_m (Model_update Cliente i cliente_data) (\<lambda>r.
                 reported r ''Cliente atualizado com sucesso!'' ''clientes''
                   ''Erro ao atualizar cliente!''))
               else ret None)
              (\<lambda>r. or_else r (render_template ''cliente_form.html'' [(''cliente'', cliente)]))))
       (\<lambda>e. then_m (flash_error ''Erro ao editar cliente'' e) (ret (Redirect ''clientes'')))"

definition excluir_cliente :: "string \<Rightarrow> response m" where
  "excluir_cliente i =
     excluir Cliente i ''Cliente excluido com sucesso!'' ''Erro ao excluir cliente!''
       ''Erro ao excluir cliente'' ''clientes''"

definition categorias :: "response m" where
  "categorias =
     listing Categoria ''categorias.html'' ''categorias'' ''Erro ao carregar categorias''"

definition nova_categoria :: "request \<Rightarrow> response m" where
  "nova_categoria req =
     bind_m
       (if req_method req = POST then
          try_except
            (bind_m (form_items req categoria_fields) (\<lambda>categoria_data.
             bind_m (Model_create Categoria categoria_data) (\<lambda>r.
             reported r ''Categoria criada com sucesso!'' ''categorias''
               ''Erro ao criar categoria!'')))
            (\<lambda>e. then_m (flash_error ''Erro ao criar categoria'' e) (ret None))
        else ret None)
       (\<lambda>r. or_else r (render_template ''categoria_form.html'' []))"

definition editar_categoria :: "string \<Rightarrow> request \<Rightarrow> response m" where
  "editar_categoria i req =
     try_except
       (bind_m (Model_get_by_id Categoria i) (\<lambda>categoria.
          if \<not> truthy categoria
          then then_m (flash ''Categoria nao encontrada!'' ''error'')
                 (ret (Redirect ''categorias''))
          else
            bind_m
              (if req_method req = POST then
                 bind_m (form_items req categoria_fields) (\<lambda>categoria_data.
                 bind_m (Model_update Categoria i categoria_data) (\<lambda>r.
                 reported r ''Categoria atualizada com sucesso!'' ''categorias''
                   ''Erro ao atualizar categoria!''))
               else ret None)
              (\<lambda>r. or_else r
                 (render_template ''categoria_form.html'' [(''categoria'', categoria)]))))
       (\<lambda>e. then_m (flash_error ''Erro ao editar categoria'' e) (ret (Redirect ''categorias'')))"

definition excluir_categoria :: "string \<Rightarrow> response m" where
  "excluir_categoria i =
     excluir Categoria i ''Categoria excluida com sucesso!'' ''Erro ao excluir categoria!''
       ''Erro ao excluir categoria'' ''categorias''"

subsection \<open>Products\<close>

definition produtos :: "response m" where
  "produtos =
     try_except
       (bind_m (Model_get_all Produto) (\<lambda>produtos_list.
        bind_m (Model_get_all Categoria) (\<lambda>categorias_list.
        render_template ''produtos.html''
          [(''produtos'', rows_val produtos_list), (''categorias'', rows_val categorias_list)])))
       (\<lambda>e. then_m (flash_error ''Erro ao carregar produtos'' e)
              (render_template ''produtos.html''
                 [(''produtos'', PList []), (''categorias'', PList [])]))"

definition produto_form :: "(string \<times> pyval) list \<Rightarrow> response m" where
  \<comment> \<open>the form page with the categories, which both product views end with\<close>
  "produto_form ctx =
     try_except
       (bind_m (Model_get_all Categoria) (\<lambda>categorias_list.
        render_template ''produto_form.html'' (ctx @ [(''categorias'', rows_val categorias_list)])))
       (\<lambda>e. render_template ''produto_form.html'' (ctx @ [(''categorias'', PList [])]))"

definition novo_produto :: "request \<Rightarrow> response m" where
  "novo_produto req =
     bind_m
       (if req_method req = POST then
          try_except
            (bind_m (uploaded_image req PNone) (\<lambda>imagem_filename.
             bind_m (form_item req ''nome'') (\<lambda>nome'.
             bind_m (form_item req ''descricao'') (\<lambda>descricao.
             bind_m (form_item req ''preco'') (\<lambda>preco_text.
             bind_m (lift (py_float preco_text)) (\<lambda>preco.
             bind_m (form_int req ''quantidade'') (\<lambda>quantidade.
             bind_m (form_item req ''categoria_id'') (\<lambda>categoria_id.
             bind_m (form_item req ''codigo_barras'') (\<lambda>codigo_barras.
             bind_m (Model_create Produto
                       [(''nome'', PStr nome'), (''descricao'', PStr descricao),
                        (''preco'', PFloat preco), (''quantidade'', PInt quantidade),
                        (''categoria_id'', PStr categoria_id),
                        (''codigo_barras'', PStr codigo_barras),
                        (''imagem'', imagem_filename)]) (\<lambda>r.
             reported r ''Produto criado com sucesso!'' ''produtos''
               ''Erro ao criar produto!''))))))))))
            (\<lambda>e. then_m (flash_error ''Erro ao criar produto'' e) (ret None))
        else ret None)
       (\<lambda>r. or_else r (produto_form []))"

definition editar_produto_post :: "string \<Rightarrow> pyval \<Rightarrow> request \<Rightarrow> response option m" where
  \<comment> \<open>the \<^verbatim>\<open>POST\<close> branch of \<^verbatim>\<open>editar_produto\<close>, with its own \<^verbatim>\<open>try\<close>\<close>
  "editar_produto_post i produto req =
     try_except
       (bind_m (lift (pyval_get produto ''imagem'' PNone)) (\<lambda>imagem_atual.
        bind_m (replaced_image req imagem_atual) (\<lambda>imagem_filename.
        if form_get_str req ''nome'' = []
        then then_m (flash ''Nome do produto e obrigatorio!'' ''error'')
               (raise (Exn ''ValueError'' ''Nome nao informado''))
        else if form_get_str req ''categoria_id'' = []
        then then_m (flash ''Categoria e obrigatoria!'' ''error'')
               (raise (Exn ''ValueError'' ''Categoria nao informada''))
        else
          bind_m (form_item req ''nome'') (\<lambda>nome'.
          bind_m (form_float req ''preco'') (\<lambda>preco.
          bind_m (form_int req ''quantidade'') (\<lambda>quantidade.
          bind_m (form_item req ''categoria_id'') (\<lambda>categoria_id.
          bind_m (Model_update Produto i
                    [(''nome'', PStr nome'),
                     (''descricao'', PStr (form_get_str req ''descricao'')),
                     (''preco'', PFloat preco), (''quantidade'', PInt quantidade),
                     (''categoria_id'', PStr categoria_id),
                     (''codigo_barras'', PStr (form_get_str req ''codigo_barras'')),
                     (''imagem'', imagem_filename)]) (\<lambda>resultado.
          reported resultado ''Produto atualizado com sucesso!'' ''produtos''
            ''Erro ao atualizar produto! Verifique os dados e tente novamente.''))))))))
       (\<lambda>e. then_m (flash_error ''Erro ao processar dados'' e) (ret None))"

definition editar_produto :: "string \<Rightarrow> request \<Rightarrow> response m" where
  "editar_produto i req =
     try_except
       (bind_m (Model_get_by_id Produto i) (\<lambda>produto.
          if \<not> truthy produto
          then then_m (flash ''Produto nao encontrado!'' ''error'') (ret (Redirect ''produtos''))
          else
            bind_m (if req_method req = POST then editar_produto_post i produto req else ret None)
              (\<lambda>r. or_else r (produto_form [(''produto'', produto)]))))
       (\<lambda>e. then_m (flash_error ''Erro ao editar produto'' e) (ret (Redirect ''produtos'')))"

definition excluir_produto :: "string \<Rightarrow> response m" where
  "excluir_produto i =
     excluir Produto i ''Produto excluido com sucesso!'' ''Erro ao excluir produto!''
       ''Erro ao excluir produto'' ''produtos''"


subsection \<open>Stock\<close>

definition estoque_item :: "row \<Rightarrow> exn + row" where
  \<comment> \<open>the dict built for one product in the loop of \<^verbatim>\<open>estoque\<close>\<close>
  "estoque_item produto =
     (case py_gt0 (dict_get produto ''quantidade'' (PInt 0)) of
        Inl e \<Rightarrow> Inl e
      | Inr positive \<Rightarrow>
          Inr [(''id'', dict_get produto ''id'' (PStr [])),
               (''nome'', dict_get produto ''nome'' (PStr ''Produto'')),
               (''descricao'', dict_get produto ''descricao'' (PStr [])),
               (''quantidade'', dict_get produto ''quantidade'' (PInt 0)),
               (''preco'', dict_get produto ''preco'' (PFloat (Dec 0 1))),
               (''categoria'', dict_get produto ''categoria'' (PStr ''Sem categoria'')),
               (''imagem'', dict_get produto ''imagem'' (PStr [])),
               (''codigo_barras'', dict_get produto ''codigo_barras'' (PStr [])),
               (''status'', PStr (if positive then ''Em estoque'' else ''Sem estoque''))])"

fun estoque_items :: "row list \<Rightarrow> exn + row list" where
  "estoque_items [] = Inr []"
| "estoque_items (produto # rest) =
     (case estoque_item produto of
        Inl e \<Rightarrow> Inl e
      | Inr item \<Rightarrow>
          (case estoque_items rest of Inl e \<Rightarrow> Inl e | Inr items \<Rightarrow> Inr (item # items)))"

fun count_gt0 :: "row list \<Rightarrow> exn + int" where
  \<comment> \<open>\<^verbatim>\<open>len([item for item in estoque_list if item.get('quantidade', 0) > 0])\<close>\<close>
  "count_gt0 [] = Inr 0"
| "count_gt0 (item # rest) =
     (case py_gt0 (dict_get item ''quantidade'' (PInt 0)) of
        Inl e \<Rightarrow> Inl e
      | Inr b \<Rightarrow>
          (case count_gt0 rest of Inl e \<Rightarrow> Inl e | Inr n \<Rightarrow> Inr (if b then n + 1 else n)))"

fun count_le0 :: "row list \<Rightarrow> exn + int" where
  \<comment> \<open>\<^verbatim>\<open>len([item for item in estoque_list if item.get('quantidade', 0) <= 0])\<close>\<close>
  "count_le0 [] = Inr 0"
| "count_le0 (item # rest) =
     (case py_le0 (dict_get item ''quantidade'' (PInt 0)) of
        Inl e \<Rightarrow> Inl e
      | Inr b \<Rightarrow>
          (case count_le0 rest of Inl e \<Rightarrow> Inl e | Inr n \<Rightarrow> Inr (if b then n + 1 else n)))"

definition status_cell :: "row \<Rightarrow> exn + string \<times> string" where
  \<comment> \<open>the style class and the label of the status column of one table row\<close>
  "status_cell item =
     (case py_int_of (dict_get item ''quantidade'' (PInt 0)) of
        Inl e \<Rightarrow> Inl e
      | Inr q \<Rightarrow>
          Inr (if 0 < q then ''status-em-estoque'' else ''status-sem-estoque'',
               if 0 < q then ''Em estoque'' else ''Sem estoque''))"

definition descricao_cell :: "row \<Rightarrow> exn + pyval \<times> bool" where
  \<comment> \<open>\<^verbatim>\<open>item.get('descricao', ...)[:50]\<close>, and whether \<^verbatim>\<open>...\<close> follows it
      (\<^verbatim>\<open>len(item.get('descricao', '')) > 50\<close>)\<close>
  "descricao_cell item =
     (case dict_get item ''descricao'' (PStr ''Sem descricao'') of
        PStr d \<Rightarrow> Inr (PStr (take 50 d), 50 < length d)
      | PList xs \<Rightarrow> Inr (PList (take 50 xs), 50 < length xs)
      | _ \<Rightarrow> Inl (Exn ''TypeError'' ''object is not subscriptable''))"

definition table_row :: "row \<Rightarrow> exn + row" where
  \<comment> \<open>one row of the table of the page, cell by cell in the order of the source\<close>
  "table_row item =
     (case descricao_cell item of
        Inl e \<Rightarrow> Inl e
      | Inr (d, longer) \<Rightarrow>
     (case py_float_of (dict_get item ''preco'' (PInt 0)) of
        Inl e \<Rightarrow> Inl e
      | Inr preco \<Rightarrow>
     (case status_cell item of
        Inl e \<Rightarrow> Inl e
      | Inr (cls, label) \<Rightarrow>
          Inr [(''imagem'', dict_get item ''imagem'' PNone),
               (''nome'', dict_get item ''nome'' (PStr ''N/A'')),
               (''descricao'', d),
               (''reticencias'', PBool longer),
               (''quantidade'', dict_get item ''quantidade'' (PInt 0)),
               (''preco'', PFloat preco),
               (''categoria'', dict_get item ''categoria'' (PStr ''Sem categoria'')),
               (''classe'', PStr cls),
               (''status'', PStr label),
               (''id'', dict_get item ''id'' PNone)])))"

fun table_rows :: "row list \<Rightarrow> exn + row list" where
  "table_rows [] = Inr []"
| "table_rows (item # rest) =
     (case table_row item of
        Inl e \<Rightarrow> Inl e
      | Inr r \<Rightarrow> (case table_rows rest of Inl e \<Rightarrow> Inl e | Inr rs \<Rightarrow> Inr (r # rs)))"

definition estoque_page :: "row list \<Rightarrow> exn + response" where
  \<comment> \<open>the page that \<^verbatim>\<open>estoque\<close> formats from \<^verbatim>\<open>estoque_list\<close>\<close>
  "estoque_page estoque_list =
     (case count_gt0 estoque_list of
        Inl e \<Rightarrow> Inl e
      | Inr em_estoque \<Rightarrow>
     (case count_le0 estoque_list of
        Inl e \<Rightarrow> Inl e
      | Inr sem_estoque \<Rightarrow>
     (case table_rows estoque_list of
        Inl e \<Rightarrow> Inl e
      | Inr linhas \<Rightarrow>
          Inr (Html ''estoque''
                 [(''total'', PInt (int (length estoque_list))),
                  (''em_estoque'', PInt em_estoque),
                  (''sem_estoque'', PInt sem_estoque),
                  (''linhas'', rows_val linhas)]))))"

definition estoque_list_of :: "row list m" where
  \<comment> \<open>the inner \<^verbatim>\<open>try\<close> of \<^verbatim>\<open>estoque\<close>: any error empties the list\<close>
  "estoque_list_of =
     try_except
       (bind_m (Model_get_all Produto) (\<lambda>produtos_list. lift (estoque_items produtos_list)))
       (\<lambda>e. ret [])"

definition estoque :: "response m" where
  "estoque =
     try_except
       (bind_m estoque_list_of (\<lambda>estoque_list. lift (estoque_page estoque_list)))
       (\<lambda>e. ret (Html ''estoque_erro'' [(''erro'', PStr (exn_str e))]))"

definition atualizar_estoque :: "string \<Rightarrow> request \<Rightarrow> response m" where
  "atualizar_estoque i req =
     try_except
       (bind_m (form_int req ''quantidade'') (\<lambda>quantidade.
        bind_m (Model_get_by_id Produto i) (\<lambda>produto.
          if \<not> truthy produto
          then then_m (flash ''Produto nao encontrado!'' ''error'') (ret (Redirect ''estoque''))
          else
            bind_m (Model_update Produto i [(''quantidade'', PInt quantidade)]) (\<lambda>r.
            then_m
              (if truthy r
               then flash (''Estoque atualizado com sucesso! Nova quantidade: ''
                             @ str_int quantidade) ''success''
               else flash ''Erro ao atualizar estoque!'' ''error'')
              (ret (Redirect ''estoque''))))))
       (\<lambda>e. then_m (flash_error ''Erro ao atualizar estoque'' e) (ret (Redirect ''estoque'')))"

subsection \<open>Sales and reports\<close>

definition vendas :: "response m" where
  "vendas = listing Venda ''vendas.html'' ''vendas'' ''Erro ao carregar vendas''"

definition venda_form :: "response m" where
  "venda_form =
     try_except
       (bind_m (Model_get_all Cliente) (\<lambda>clientes_list.
        bind_m (Model_get_all Produto) (\<lambda>produtos_list.
        render_template ''venda_form.html''
          [(''clientes'', rows_val clientes_list), (''produtos'', rows_val produtos_list)])))
       (\<lambda>e. render_template ''venda_form.html''
              [(''clientes'', PList []), (''produtos'', PList [])])"

definition nova_venda :: "request \<Rightarrow> response m" where
  "nova_venda req =
     bind_m
       (if req_method req = POST then
          try_except
            (bind_m (form_item req ''cliente_id'') (\<lambda>cliente_id.
             bind_m (form_item req ''total'') (\<lambda>total_text.
             bind_m (lift (py_float total_text)) (\<lambda>total.
             bind_m (Model_create Venda
                       [(''cliente_id'', PStr cliente_id), (''data_venda'', PStr (now req)),
                        (''total'', PFloat total), (''status'', PStr ''concluida'')]) (\<lambda>r.
             reported r ''Venda criada com sucesso!'' ''vendas'' ''Erro ao criar venda!'')))))
            (\<lambda>e. then_m (flash_error ''Erro ao criar venda'' e) (ret None))
        else ret None)
       (\<lambda>r. or_else r venda_form)"

definition relatorios :: "response m" where
  "relatorios = render_template ''relatorios.html'' []"

definition erro_json :: "exn \<Rightarrow> response" where
  \<comment> \<open>\<^verbatim>\<open>jsonify({'erro': str(e)}), 500\<close>\<close>
  "erro_json e = Json (PDict [(''erro'', PStr (exn_str e))]) 500"

definition api_relatorio_vendas :: "response m" where
  "api_relatorio_vendas =
     try_except
       (bind_m (Model_get_all Venda) (\<lambda>vendas_list. ret (Json (rows_val vendas_list) 200)))
       (\<lambda>e. ret (erro_json e))"

definition api_relatorio_estoque :: "response m" where
  "api_relatorio_estoque =
     try_except
       (bind_m (Model_get_all Estoque) (\<lambda>estoque_rows. ret (Json (rows_val estoque_rows) 200)))
       (\<lambda>e. ret (erro_json e))"

definition sync_status_route :: "response m" where
  "sync_status_route =
     try_except (bind_m get_sync_status (\<lambda>status. ret (Json status 200)))
       (\<lambda>e. ret (erro_json e))"

definition cliente_teste :: row where
  "cliente_teste =
     [(''nome'', PStr ''Cliente Teste Web''), (''email'', PStr ''teste.web@teste.com''),
      (''telefone'', PStr ''(11) 77777-7777''), (''cpf_cnpj'', PStr ''111.222.333-44''),
      (''endereco'', PStr ''Rua Teste Web, 999''), (''cidade'', PStr ''Sao Paulo''),
      (''estado'', PStr ''SP''), (''cep'', PStr ''01234-999'')]"

definition teste_clientes :: "response m" where
  "teste_clientes =
     try_except
       (bind_m (Model_get_all Cliente) (\<lambda>antes.
        bind_m (Model_create Cliente cliente_teste) (\<lambda>resultado.
        bind_m
          (if truthy resultado
           then bind_m (lift (pyval_item resultado ''id'')) (\<lambda>novo_id.
                flash (''Cliente de teste criado! ID: '' @ py_str novo_id) ''success'')
           else flash ''Falha ao criar cliente de teste!'' ''error'') (\<lambda>_.
        bind_m (Model_get_all Cliente) (\<lambda>clientes_apos.
        ret (Json (PDict [(''antes'', PInt (int (length antes))),
                          (''depois'', PInt (int (length clientes_apos))),
                          (''cliente_teste'', resultado),
                          (''todos_clientes'', rows_val clientes_apos)]) 200))))))
       (\<lambda>e. ret (erro_json e))"

definition api_teste :: "request \<Rightarrow> response m" where
  "api_teste req w =
     ret (Json (PDict [(''status'', PStr ''success''), (''message'', PStr ''API funcionando!''),
                       (''timestamp'', PStr (now req)), (''flask_version'', PStr ''2.3.0+''),
                       (''supabase_available'', PBool (SUPABASE_AVAILABLE w)),
                       (''routes'', PList (map PStr
                          [''/'', ''/login'', ''/teste'', ''/debug'', ''/fallback'',
                           ''/api/teste'']))]) 200) w"

definition api_status :: "request \<Rightarrow> response m" where
  "api_status req =
     try_except
       (\<lambda>w. ret (Json (PDict [(''status'', PStr ''online''),
                              (''app'', PStr ''Sistema Empresarial''),
                              (''version'', PStr ''1.0.0''),
                              (''environment'', PStr ''production''),
                              (''timestamp'', PStr (now req)),
                              (''supabase'', PStr (if SUPABASE_AVAILABLE w then ''available''
                                                   else ''unavailable'')),
                              (''flask_login'', PStr ''configured''),
                              (''gunicorn'', PStr ''ready'')]) 200) w)
       (\<lambda>e. ret (Json (PDict [(''status'', PStr ''error''), (''error'', PStr (exn_str e)),
                              (''timestamp'', PStr (now req))]) 500))"

subsection \<open>Uploaded files\<close>

definition send_from_directory :: "string \<Rightarrow> response m" where
  \<comment> \<open>Flask's \<^verbatim>\<open>send_from_directory(UPLOAD_FOLDER, filename)\<close>: a name with no file
      under the folder raises \<^verbatim>\<open>NotFound\<close>\<close>
  "send_from_directory name w =
     (case map_of (uploads w) name of
        None \<Rightarrow> (Inl (Exn ''NotFound'' ''404 Not Found''), w)
      | Some bytes \<Rightarrow> (Inr (SendFile name bytes), w))"

definition uploaded_file :: "string \<Rightarrow> response m" where
  "uploaded_file name =
     try_except (send_from_directory name) (\<lambda>e. ret (Text ''Arquivo nao encontrado'' 404))"

section \<open>The routes\<close>

datatype route =
    R_index
  | R_login
  | R_logout
  | R_clientes
  | R_novo_cliente
  | R_editar_cliente string
  | R_excluir_cliente string
  | R_categorias
  | R_nova_categoria
  | R_editar_categoria string
  | R_excluir_categoria string
  | R_produtos
  | R_novo_produto
  | R_editar_produto string
  | R_excluir_produto string
  | R_estoque
  | R_atualizar_estoque string
  | R_vendas
  | R_nova_venda
  | R_relatorios
  | R_api_relatorio_vendas
  | R_api_relatorio_estoque
  | R_sync_status_route
  | R_teste_clientes
  | R_api_teste
  | R_api_status
  | R_uploaded_file string

fun route_methods :: "route \<Rightarrow> http_method list" where
  \<comment> \<open>the \<^verbatim>\<open>methods=[...]\<close> of \<^verbatim>\<open>@app.route\<close>; \<^verbatim>\<open>GET\<close> alone when none is given\<close>
  "route_methods R_login = [GET, POST]"
| "route_methods R_novo_cliente = [GET, POST]"
| "route_methods (R_editar_cliente i) = [GET, POST]"
| "route_methods R_nova_categoria = [GET, POST]"
| "route_methods (R_editar_categoria i) = [GET, POST]"
| "route_methods R_novo_produto = [GET, POST]"
| "route_methods (R_editar_produto i) = [GET, POST]"
| "route_methods (R_atualizar_estoque i) = [POST]"
| "route_methods R_nova_venda = [GET, POST]"
| "route_methods r = [GET]"

fun view :: "route \<Rightarrow> request \<Rightarrow> response m" where
  \<comment> \<open>the view function of each route, under the decorators the source gives it\<close>
  "view R_index req = index"
| "view R_login req = login req"
| "view R_logout req = login_required logout"
| "view R_clientes req = login_required clientes"
| "view R_novo_cliente req = login_required (novo_cliente req)"
| "view (R_editar_cliente i) req = login_required (editar_cliente i req)"
| "view (R_excluir_cliente i) req = login_required (excluir_cliente i)"
| "view R_categorias req = login_required categorias"
| "view R_nova_categoria req = login_required (nova_categoria req)"
| "view (R_editar_categoria i) req = login_required (editar_categoria i req)"
| "view (R_excluir_categoria i) req = login_required (excluir_categoria i)"
| "view R_produtos req = login_required produtos"
| "view R_novo_produto req = login_required (novo_produto req)"
| "view (R_editar_produto i) req = login_required (editar_produto i req)"
| "view (R_excluir_produto i) req = login_required (excluir_produto i)"
| "view R_estoque req = login_required estoque"
| "view (R_atualizar_estoque i) req = login_required (atualizar_estoque i req)"
| "view R_vendas req = login_required vendas"
| "view R_nova_venda req = login_required (nova_venda req)"
| "view R_relatorios req = login_required relatorios"
| "view R_api_relatorio_vendas req = login_required api_relatorio_vendas"
| "view R_api_relatorio_estoque req = login_required api_relatorio_estoque"
| "view R_sync_status_route req = login_required sync_status_route"
| "view R_teste_clientes req = login_required teste_clientes"
| "view R_api_teste req = api_teste req"
| "view R_api_status req = api_status req"
| "view (R_uploaded_file name) req = uploaded_file name"

definition dispatch :: "route \<Rightarrow> request \<Rightarrow> response m" where
  \<comment> \<open>Flask answers 405 itself when the route does not take the request's HTTP verb\<close>
  "dispatch r req =
     (if req_method req \<in> set (route_methods r) then view r req
      else ret (Text ''Method Not Allowed'' 405))"


section \<open>A small shop, for evaluation\<close>

definition ferragens :: row where
  "ferragens =
     [(''id'', PStr ''1''), (''nome'', PStr ''Ferragens''), (''descricao'', PStr ''Loja''),
      (''cor'', PStr ''#667eea''), (''icone'', PStr ''tag'')]"

definition parafuso :: row where
  "parafuso =
     [(''id'', PStr ''2''), (''nome'', PStr ''Parafuso''),
      (''descricao'', PStr ''Parafuso sextavado''), (''preco'', PFloat (Dec 250 2)),
      (''quantidade'', PInt 5), (''categoria_id'', PStr ''1''),
      (''codigo_barras'', PStr ''789''), (''imagem'', PStr ''foto.png'')]"

definition maria :: row where
  "maria =
     [(''id'', PStr ''3''), (''nome'', PStr ''Maria''), (''email'', PStr ''maria@loja.com''),
      (''telefone'', PStr ''1199''), (''cpf_cnpj'', PStr ''123''), (''endereco'', PStr ''Rua A''),
      (''cidade'', PStr ''Sao Paulo''), (''estado'', PStr ''SP''), (''cep'', PStr ''01234'')]"

definition loja :: world where
  "loja =
     \<lparr>SUPABASE_AVAILABLE = True, current_user = None, flashes = [],
      tables = (\<lambda>md. [])(Categoria := [ferragens], Produto := [parafuso], Cliente := [maria]),
      next_id = 4, outage = None, store_log = [],
      uploads = [(''foto.png'', ''PNG'')],
      sync_status = Inr (PDict [(''running'', PBool False)])\<rparr>"

definition admin :: MockUser where
  "admin = MockUser_init ''admin'' ''admin'' ''Administrador''"

definition post :: "(string \<times> string) list \<Rightarrow> request" where
  "post f = \<lparr>req_method = POST, form = f, files = [], uuid4 = ''0f8fad5b'', now = ''2025-01-01T10:00:00''\<rparr>"

definition get :: request where
  "get = \<lparr>req_method = GET, form = [], files = [], uuid4 = ''0f8fad5b'', now = ''2025-01-01T10:00:00''\<rparr>"

section \<open>Stock that never goes negative\<close>









definition loja_admin :: world where
  \<comment> \<open>the shop with the administrator signed in\<close>
  "loja_admin = loja\<lparr>current_user := Some admin\<rparr>"

definition porca :: "string \<Rightarrow> request" where
  \<comment> \<open>the form of a new product, with the given quantity\<close>
  "porca q =
     post [(''nome'', ''Porca''), (''descricao'', ''Porca sextavada''), (''preco'', ''0.50''),
           (''quantidade'', q), (''categoria_id'', ''1''), (''codigo_barras'', ''790'')]"

section \<open>What the stock view reports\<close>






section \<open>Routes over the entities, and routes that answer as an API\<close>

fun crud_route :: "route \<Rightarrow> bool" where
  \<comment> \<open>the screens and operations over customers, categories, products, stock and sales\<close>
  "crud_route R_index = True"
| "crud_route R_clientes = True"
| "crud_route R_novo_cliente = True"
| "crud_route (R_editar_cliente i) = True"
| "crud_route (R_excluir_cliente i) = True"
| "crud_route R_categorias = True"
| "crud_route R_nova_categoria = True"
| "crud_route (R_editar_categoria i) = True"
| "crud_route (R_excluir_categoria i) = True"
| "crud_route R_produtos = True"
| "crud_route R_novo_produto = True"
| "crud_route (R_editar_produto i) = True"
| "crud_route (R_excluir_produto i) = True"
| "crud_route R_estoque = True"
| "crud_route (R_atualizar_estoque i) = True"
| "crud_route R_vendas = True"
| "crud_route R_nova_venda = True"
| "crud_route R_api_relatorio_vendas = True"
| "crud_route R_api_relatorio_estoque = True"
| "crud_route R_teste_clientes = True"
| "crud_route r = False"

fun api_route :: "route \<Rightarrow> bool" where
  \<comment> \<open>the routes that answer with \<^verbatim>\<open>jsonify\<close> or with a file\<close>
  "api_route R_api_relatorio_vendas = True"
| "api_route R_api_relatorio_estoque = True"
| "api_route R_sync_status_route = True"
| "api_route R_teste_clientes = True"
| "api_route R_api_teste = True"
| "api_route R_api_status = True"
| "api_route (R_uploaded_file name) = True"
| "api_route r = False"

fun erro_body :: "pyval \<Rightarrow> bool" where
  \<comment> \<open>a JSON body of the shape \<^verbatim>\<open>{"erro": string}\<close>\<close>
  "erro_body (PDict [(k, PStr msg)]) = (k = ''erro'')"
| "erro_body v = False"

fun structured :: "response \<Rightarrow> bool" where
  \<comment> \<open>200 on success, 404 on a missing file, 500 with the JSON error body\<close>
  "structured (Json body st) = (st = 200 \<or> (st = 500 \<and> erro_body body))"
| "structured (Text t st) = (st = 404)"
| "structured (SendFile name bytes) = True"
| "structured resp = False"

definition loja_fora :: world where
  \<comment> \<open>the shop while the remote store cannot be reached\<close>
  "loja_fora = loja_admin\<lparr>outage := Some ''timed out''\<rparr>"

section \<open>Properties\<close>

subsection \<open>Authentication\<close>

text \<open>
  C4. \<^verbatim>\<open>authenticate_user('admin', 'admin123')\<close> returns a user that is authenticated, and
  the login made with that pair signs the user in. Every other pair of username and
  password makes \<^verbatim>\<open>authenticate_user\<close> return \<^verbatim>\<open>None\<close>, and the login answers with the
  same page and the same message, \<^verbatim>\<open>'Usuario ou senha incorretos!'\<close>, whichever of the
  two fields was wrong: the outcome is a function of neither.
\<close>

theorem login_generic_failure:
  assumes "req_method req = POST"
    and "map_of (form req) ''username'' = Some u"
    and "map_of (form req) ''password'' = Some p"
  shows "authenticate_user ''admin'' ''admin123''
           = Some (MockUser_init ''admin'' ''admin'' ''Administrador'')
       \<and> is_authenticated (MockUser_init ''admin'' ''admin'' ''Administrador'')
       \<and> (if u = ''admin'' \<and> p = ''admin123''
           then login req w =
                  (Inr (Redirect ''index''),
                   w\<lparr>current_user := Some (MockUser_init ''admin'' ''admin'' ''Administrador''),
                     flashes := flashes w @ [(''Login realizado com sucesso!'', ''success'')]\<rparr>)
           else authenticate_user u p = None
              \<and> login req w =
                  (Inr (Render ''login.html'' []),
                   w\<lparr>flashes := flashes w @ [(''Usuario ou senha incorretos!'', ''error'')]\<rparr>))"
  using assms
  by (auto simp: login_def authenticate_user_def MockUser_init_def form_item_def bind_m_def
      ret_def try_except_def then_m_def flash_def login_user_def or_else_def render_template_def)

theorem login_generic_failure_witness:
  "req_method (post [(''username'', ''admin''), (''password'', ''wrong'')]) = POST
   \<and> map_of (form (post [(''username'', ''admin''), (''password'', ''wrong'')])) ''username''
       = Some ''admin''
   \<and> map_of (form (post [(''username'', ''admin''), (''password'', ''wrong'')])) ''password''
       = Some ''wrong''
   \<and> login (post [(''username'', ''admin''), (''password'', ''wrong'')]) loja
       = (Inr (Render ''login.html'' []),
          loja\<lparr>flashes := [(''Usuario ou senha incorretos!'', ''error'')]\<rparr>)
   \<and> login (post [(''username'', ''nope''), (''password'', ''admin123'')]) loja
       = login (post [(''username'', ''admin''), (''password'', ''wrong'')]) loja"
  using login_generic_failure
          [of "post [(''username'', ''admin''), (''password'', ''wrong'')]" "''admin''" "''wrong''" loja]
        login_generic_failure
          [of "post [(''username'', ''nope''), (''password'', ''admin123'')]" "''nope''" "''admin123''" loja]
  by (simp add: post_def loja_def)

subsection \<open>Dicts and the store\<close>






lemmas store_defs =
  Model_get_all_def Model_get_by_id_def Model_create_def Model_update_def Model_delete_def
  store_get_all_def store_get_by_id_def store_create_def store_update_def store_delete_def
  log_call_def has_id_def

lemmas stmt_defs =
  bind_m_def then_m_def try_except_def ret_def raise_def lift_def flash_def flash_error_def
  or_else_def reported_def render_template_def form_item_def form_get_def form_int_def
  form_float_def form_get_str_def

lemmas shop_defs =
  loja_def loja_admin_def admin_def MockUser_init_def ferragens_def parafuso_def maria_def
  post_def get_def porca_def

subsection \<open>Statements that keep the stock from going negative\<close>






















































subsection \<open>Setting the stock quantity\<close>




subsection \<open>No negative stock\<close>





subsection \<open>Editing with fields left out\<close>

text \<open>
  C3, at the input where the source departs from it. The product \<^verbatim>\<open>'2'\<close> has a
  description, a price, the quantity 5 and a bar code. It is edited with a form that
  carries only \<^verbatim>\<open>nome\<close> and \<^verbatim>\<open>categoria_id\<close>. \<^verbatim>\<open>editar_produto\<close> reports success
  and the stored product has an empty description, the price 0, the quantity 0 and an
  empty bar code; the image, which the same function reads from the stored product
  first, is kept.
\<close>

theorem editar_produto_resets_omitted_fields:
  "tables loja Produto
     = [[(''id'', PStr ''2''), (''nome'', PStr ''Parafuso''),
         (''descricao'', PStr ''Parafuso sextavado''), (''preco'', PFloat (Dec 250 2)),
         (''quantidade'', PInt 5), (''categoria_id'', PStr ''1''),
         (''codigo_barras'', PStr ''789''), (''imagem'', PStr ''foto.png'')]]
   \<and> fst (editar_produto ''2'' (post [(''nome'', ''Parafuso''), (''categoria_id'', ''1'')]) loja)
       = Inr (Redirect ''produtos'')
   \<and> flashes (snd (editar_produto ''2''
                      (post [(''nome'', ''Parafuso''), (''categoria_id'', ''1'')]) loja))
       = [(''Produto atualizado com sucesso!'', ''success'')]
   \<and> tables (snd (editar_produto ''2''
                     (post [(''nome'', ''Parafuso''), (''categoria_id'', ''1'')]) loja)) Produto
       = [[(''id'', PStr ''2''), (''nome'', PStr ''Parafuso''),
           (''descricao'', PStr []), (''preco'', PFloat (Dec 0 0)),
           (''quantidade'', PInt 0), (''categoria_id'', PStr ''1''),
           (''codigo_barras'', PStr []), (''imagem'', PStr ''foto.png'')]]"
  by (simp add: editar_produto_def editar_produto_post_def replaced_image_def produto_form_def
      rows_val_def dict_get_def store_defs stmt_defs shop_defs Let_def)

text \<open>
  \<^verbatim>\<open>editar_cliente\<close> reads every field with \<^verbatim>\<open>request.form[...]\<close>: a form that leaves
  one out changes nothing in the store.
\<close>

lemma form_items_missing:
  "k \<in> set ks \<Longrightarrow> map_of (form req) k = None \<Longrightarrow> \<exists>e. form_items req ks w = (Inl e, w)"
proof (induction ks)
  case Nil
  then show ?case by simp
next
  case (Cons a ks)
  show ?case
  proof (cases "map_of (form req) a")
    case None
    then show ?thesis by (simp add: stmt_defs)
  next
    case (Some v)
    with Cons have "\<exists>e. form_items req ks w = (Inl e, w)" by auto
    with Some show ?thesis by (auto simp: stmt_defs)
  qed
qed

lemma tables_log_call: "tables (log_call c w) = tables w"
  by (simp add: log_call_def)

lemma editar_cliente_missing_field:
  assumes "req_method req = POST" and "k \<in> set cliente_fields" and "map_of (form req) k = None"
  shows "tables (snd (editar_cliente i req w)) = tables w"
proof -
  obtain e where e: "form_items req cliente_fields (log_call (GetById Cliente i) w)
                       = (Inl e, log_call (GetById Cliente i) w)"
    using form_items_missing [OF assms(2,3)] by blast
  show ?thesis
    using assms(1) e
    by (simp add: editar_cliente_def Model_get_by_id_def store_get_by_id_def tables_log_call
        MockModel_get_by_id_def bind_m_def then_m_def try_except_def ret_def flash_def
        flash_error_def Let_def split: option.splits)
qed

subsection \<open>Deleting a category that a product refers to\<close>

text \<open>
  C5. When a product refers to an existing category, \<^verbatim>\<open>Categoria.delete\<close> fails with
  \<^verbatim>\<open>ConflictError\<close>; \<^verbatim>\<open>excluir_categoria\<close> recovers the error, reports it with an error
  message and redirects to the list, and afterwards every table is as it was: the
  category and the product that refers to it are both still present.
\<close>

theorem excluir_categoria_referenced:
  assumes "SUPABASE_AVAILABLE w" and "outage w = None"
    and "list_ex (has_id c) (tables w Categoria)"
    and "list_ex (refers ''categoria_id'' c) (tables w Produto)"
  shows "fst (Model_delete Categoria c w) = Inl (Exn ''ConflictError'' ''entity is referenced'')
       \<and> fst (excluir_categoria c w) = Inr (Redirect ''categorias'')
       \<and> flashes (snd (excluir_categoria c w))
           = flashes w @ [(''Erro ao excluir categoria: entity is referenced'', ''error'')]
       \<and> tables (snd (excluir_categoria c w)) = tables w
       \<and> list_ex (has_id c) (tables (snd (excluir_categoria c w)) Categoria)
       \<and> list_ex (refers ''categoria_id'' c) (tables (snd (excluir_categoria c w)) Produto)"
  using assms
  by (simp add: excluir_categoria_def excluir_def Model_delete_def store_delete_def log_call_def
      referenced_def stmt_defs Let_def)

theorem excluir_categoria_referenced_witness:
  "SUPABASE_AVAILABLE loja \<and> outage loja = None
   \<and> list_ex (has_id ''1'') (tables loja Categoria)
   \<and> list_ex (refers ''categoria_id'' ''1'') (tables loja Produto)
   \<and> fst (excluir_categoria ''1'' loja) = Inr (Redirect ''categorias'')
   \<and> flashes (snd (excluir_categoria ''1'' loja))
       = [(''Erro ao excluir categoria: entity is referenced'', ''error'')]
   \<and> tables (snd (excluir_categoria ''1'' loja)) Categoria = [ferragens]
   \<and> tables (snd (excluir_categoria ''1'' loja)) Produto = [parafuso]"
proof -
  have h: "SUPABASE_AVAILABLE loja \<and> outage loja = None
     \<and> list_ex (has_id ''1'') (tables loja Categoria)
     \<and> list_ex (refers ''categoria_id'' ''1'') (tables loja Produto)"
    by (simp add: shop_defs has_id_def refers_def)
  have t: "tables loja Categoria = [ferragens] \<and> tables loja Produto = [parafuso]
           \<and> flashes loja = []"
    by (simp add: loja_def)
  from h t show ?thesis
    using excluir_categoria_referenced [of loja "''1''"] by simp
qed

subsection \<open>The stock status\<close>



lemma table_row_status:
  assumes "table_row item = Inr r"
  shows "\<exists>cls label. status_cell item = Inr (cls, label)
          \<and> map_of r ''classe'' = Some (PStr cls) \<and> map_of r ''status'' = Some (PStr label)"
  using assms by (auto simp: table_row_def split: sum.splits prod.splits)



subsection \<open>The login gate\<close>





text \<open>The routes left out of \<open>crud_route\<close> never call an entity class at all.\<close>

lemma other_routes_leave_the_store:
  assumes "\<not> crud_route r"
  shows "store_log (snd (dispatch r req w)) = store_log w \<and> tables (snd (dispatch r req w)) = tables w"
  using assms
  by (cases r)
     (auto simp: dispatch_def login_required_def unauthorized_def login_def logout_def
        logout_user_def login_user_def relatorios_def sync_status_route_def get_sync_status_def
        api_teste_def api_status_def uploaded_file_def send_from_directory_def
        authenticate_user_def stmt_defs split: option.splits sum.splits)

subsection \<open>Errors at the API routes\<close>

lemma login_required_authenticated:
  "user_is_authenticated w \<Longrightarrow> login_required v w = v w"
  by (simp add: login_required_def)

lemma get_all_outcome:
  "Model_get_all md w =
     (if SUPABASE_AVAILABLE w
      then (case outage w of
              Some msg \<Rightarrow> (Inl (unreachable msg), log_call (GetAll md) w)
            | None \<Rightarrow> (Inr (tables w md), log_call (GetAll md) w))
      else (Inr [], log_call (GetAll md) w))"
  by (simp add: Model_get_all_def store_get_all_def log_call_def Let_def MockModel_get_all_def
      split: option.splits)

lemma api_relatorio_structured:
  "\<exists>resp. fst (api_relatorio_vendas w) = Inr resp \<and> structured resp"
  "\<exists>resp. fst (api_relatorio_estoque w) = Inr resp \<and> structured resp"
  by (simp_all add: api_relatorio_vendas_def api_relatorio_estoque_def get_all_outcome
      try_except_def bind_m_def ret_def erro_json_def split: option.splits)

lemma sync_status_structured:
  "\<exists>resp. fst (sync_status_route w) = Inr resp \<and> structured resp"
  by (cases "sync_status w")
     (simp_all add: sync_status_route_def get_sync_status_def try_except_def bind_m_def ret_def
        erro_json_def)

lemma teste_clientes_structured:
  "\<exists>resp. fst (teste_clientes w) = Inr resp \<and> structured resp"
  by (simp add: teste_clientes_def get_all_outcome Model_create_def store_create_def
      MockModel_create_def log_call_def try_except_def bind_m_def ret_def lift_def flash_def
      erro_json_def Let_def split: option.splits)

lemma api_teste_structured:
  "\<exists>resp. fst (api_teste req w) = Inr resp \<and> structured resp"
  "\<exists>resp. fst (api_status req w) = Inr resp \<and> structured resp"
  by (simp_all add: api_teste_def api_status_def try_except_def ret_def)

lemma uploaded_file_structured:
  "\<exists>resp. fst (uploaded_file name w) = Inr resp \<and> structured resp"
  by (simp add: uploaded_file_def send_from_directory_def try_except_def ret_def
      split: option.splits)

text \<open>
  C8. Each route that answers as an API returns a response, whatever the state: it is
  never left with an exception. The response is a 200, or a 500 whose JSON body is
  \<^verbatim>\<open>{"erro": text}\<close>, or the file, or the 404 of a missing file. When the store cannot
  be reached the sales report, the stock report and the customer test answer 500 with
  the error's text; when \<^verbatim>\<open>get_sync_status\<close> raises, the sync status answers 500 with
  its text; when the file is missing, the upload route answers 404.
\<close>

theorem api_failures_are_structured:
  assumes "api_route r" and "user_is_authenticated w" and "req_method req = GET"
  shows "(\<exists>resp. fst (dispatch r req w) = Inr resp \<and> structured resp)
       \<and> (\<forall>msg. SUPABASE_AVAILABLE w \<and> outage w = Some msg
              \<and> r \<in> {R_api_relatorio_vendas, R_api_relatorio_estoque, R_teste_clientes}
            \<longrightarrow> fst (dispatch r req w) = Inr (Json (PDict [(''erro'', PStr msg)]) 500))
       \<and> (\<forall>e. SUPABASE_AVAILABLE w \<and> sync_status w = Inl e \<and> r = R_sync_status_route
            \<longrightarrow> fst (dispatch r req w) = Inr (Json (PDict [(''erro'', PStr (exn_str e))]) 500))
       \<and> (\<forall>name. r = R_uploaded_file name \<and> map_of (uploads w) name = None
            \<longrightarrow> fst (dispatch r req w) = Inr (Text ''Arquivo nao encontrado'' 404))"
proof -
  have a: "\<exists>resp. fst (dispatch r req w) = Inr resp \<and> structured resp"
    using assms
    by (cases r)
       (simp_all add: dispatch_def login_required_authenticated api_relatorio_structured
          sync_status_structured teste_clientes_structured api_teste_structured
          uploaded_file_structured)
  have b: "fst (dispatch r req w) = Inr (Json (PDict [(''erro'', PStr msg)]) 500)"
    if "SUPABASE_AVAILABLE w" "outage w = Some msg"
       "r \<in> {R_api_relatorio_vendas, R_api_relatorio_estoque, R_teste_clientes}" for msg
    using that assms
    by (auto simp: dispatch_def login_required_authenticated api_relatorio_vendas_def
        api_relatorio_estoque_def teste_clientes_def get_all_outcome try_except_def bind_m_def
        ret_def erro_json_def unreachable_def)
  have c: "fst (dispatch r req w) = Inr (Json (PDict [(''erro'', PStr (exn_str e))]) 500)"
    if "SUPABASE_AVAILABLE w" "sync_status w = Inl e" "r = R_sync_status_route" for e
    using that assms
    by (simp add: dispatch_def login_required_authenticated sync_status_route_def
        get_sync_status_def try_except_def bind_m_def ret_def erro_json_def)
  have d: "fst (dispatch r req w) = Inr (Text ''Arquivo nao encontrado'' 404)"
    if "r = R_uploaded_file name" "map_of (uploads w) name = None" for name
    using that assms
    by (simp add: dispatch_def uploaded_file_def send_from_directory_def try_except_def ret_def)
  from a b c d show ?thesis by blast
qed

theorem api_failures_are_structured_witness:
  "api_route R_api_relatorio_vendas \<and> user_is_authenticated loja_fora \<and> req_method get = GET
   \<and> SUPABASE_AVAILABLE loja_fora \<and> outage loja_fora = Some ''timed out''
   \<and> fst (dispatch R_api_relatorio_vendas get loja_fora)
       = Inr (Json (PDict [(''erro'', PStr ''timed out'')]) 500)
   \<and> structured (Json (PDict [(''erro'', PStr ''timed out'')]) 500)"
proof -
  have h: "api_route R_api_relatorio_vendas \<and> user_is_authenticated loja_fora
     \<and> req_method get = GET
     \<and> SUPABASE_AVAILABLE loja_fora \<and> outage loja_fora = Some ''timed out''"
    by (simp add: loja_fora_def user_is_authenticated_def shop_defs)
  from h show ?thesis
    using api_failures_are_structured [of R_api_relatorio_vendas loja_fora get]
    by simp
qed

subsection \<open>Creating a sale\<close>




subsection \<open>Serving an uploaded file\<close>

text \<open>
  C10. The answer of the route \<^verbatim>\<open>/uploads/<filename>\<close> is the same whoever is signed in,
  and when nobody is: it is the file of that name, or the 404 text when there is none
  (or the 405 of the routing for a method other than \<^verbatim>\<open>GET\<close>), and the request leaves
  the session as it found it.
\<close>

theorem uploaded_file_ignores_the_session:
  "fst (dispatch (R_uploaded_file name) req (w\<lparr>current_user := u\<rparr>))
     = fst (dispatch (R_uploaded_file name) req w)
   \<and> snd (dispatch (R_uploaded_file name) req (w\<lparr>current_user := u\<rparr>))
       = (snd (dispatch (R_uploaded_file name) req w))\<lparr>current_user := u\<rparr>
   \<and> fst (dispatch (R_uploaded_file name) req w)
       = Inr (if req_method req = GET
              then (case map_of (uploads w) name of
                      None \<Rightarrow> Text ''Arquivo nao encontrado'' 404
                    | Some bytes \<Rightarrow> SendFile name bytes)
              else Text ''Method Not Allowed'' 405)"
  by (simp add: dispatch_def uploaded_file_def send_from_directory_def try_except_def ret_def
      split: option.splits)

theorem uploaded_file_ignores_the_session_witness:
  "\<not> user_is_authenticated loja \<and> user_is_authenticated loja_admin
   \<and> fst (dispatch (R_uploaded_file ''foto.png'') get loja) = Inr (SendFile ''foto.png'' ''PNG'')
   \<and> fst (dispatch (R_uploaded_file ''foto.png'') get loja_admin)
       = Inr (SendFile ''foto.png'' ''PNG'')
   \<and> fst (dispatch (R_uploaded_file ''nada.png'') get loja)
       = fst (dispatch (R_uploaded_file ''nada.png'') get loja_admin)"
  using uploaded_file_ignores_the_session
          [where name = "''foto.png''" and req = get and w = loja and u = "Some admin"]
        uploaded_file_ignores_the_session
          [where name = "''nada.png''" and req = get and w = loja and u = "Some admin"]
  by (simp add: user_is_authenticated_def shop_defs)

end
